theory Spec2Isabelle
  imports Complex_Main "HOL-Library.Log_Nat"
begin

section \<open>Data model of \<open>DiabeticPatientMonitor\<close> (src/Dia.py)\<close>

text \<open>
  Glucose values are Python floats. A finite float is modelled by the real number it
  denotes: the comparisons of the source (\<open><\<close>, \<open>>\<close>, \<open>>=\<close>) are exact on floats, so
  they are the comparisons of these reals. The float operations of the measurement path
  (\<open>last_reading + 15\<close>, \<open>mu + z * sigma\<close>, \<open>round(x, 1)\<close>) round their exact result to the
  nearest double, see \<open>round_double\<close> below; the arithmetic of the regression, which is the
  library's, is taken in exact arithmetic. The three non-finite floats are constructors of
  their own, with the comparison results IEEE-754 gives them.
\<close>

datatype pyfloat = Finite real | PosInf | NegInf | NaN

fun fl_lt :: "pyfloat \<Rightarrow> real \<Rightarrow> bool" where
  "fl_lt (Finite x) t = (x < t)"
| "fl_lt PosInf t = False"
| "fl_lt NegInf t = True"
| "fl_lt NaN t = False"

fun fl_gt :: "pyfloat \<Rightarrow> real \<Rightarrow> bool" where
  "fl_gt (Finite x) t = (x > t)"
| "fl_gt PosInf t = True"
| "fl_gt NegInf t = False"
| "fl_gt NaN t = False"

text \<open>
  The trend strings of the source are the arrows
  \<open>StrongUp\<close> = two up arrows, \<open>Up\<close> = one up arrow, \<open>Stable\<close> = right arrow,
  \<open>Down\<close> = one down arrow, \<open>StrongDown\<close> = two down arrows.
\<close>

datatype trend = StrongUp | Up | Stable | Down | StrongDown

datatype error = ValueError

type_synonym time = nat

record alert_thresholds =
  hypoglycemia :: real
  hyperglycemia :: real
  severe_hyperglycemia :: real
  ketoacidosis_risk :: real
  hypo_symptoms_severity :: real

record target_ranges =
  fasting_glucose :: string
  postprandial_glucose :: string
  hba1c :: string
  blood_pressure :: string

record email_alerts =
  enabled :: bool
  smtp_server :: string
  smtp_port :: int
  sender_email :: string
  sender_password :: string
  recipient_emails :: "string list"

record prediction_settings =
  window_size :: int
  forecast_hours :: int

record config =
  alert_thresholds :: alert_thresholds
  target_ranges :: target_ranges
  email_alerts :: email_alerts
  prediction_settings :: prediction_settings

text \<open>The configuration \<open>load_config\<close> returns when the file is missing.\<close>

definition default_config :: config where
  "default_config =
     \<lparr> alert_thresholds =
         \<lparr> hypoglycemia = 70, hyperglycemia = 180, severe_hyperglycemia = 250,
           ketoacidosis_risk = 15 / 10, hypo_symptoms_severity = 7 \<rparr>,
       target_ranges =
         \<lparr> fasting_glucose = ''80-130 mg/dL'', postprandial_glucose = ''80-180 mg/dL'',
           hba1c = ''<7%'', blood_pressure = ''<140/90 mmHg'' \<rparr>,
       email_alerts =
         \<lparr> enabled = False, smtp_server = ''smtp.gmail.com'', smtp_port = 587,
           sender_email = [], sender_password = [], recipient_emails = [] \<rparr>,
       prediction_settings = \<lparr> window_size = 10, forecast_hours = 4 \<rparr> \<rparr>"

text \<open>
  The text of an alert is an f-string around one value; the model keeps which text it is
  and the value put into it.
\<close>

datatype message =
    HypoglycemiaDetected pyfloat
  | SevereHyperglycemiaMsg pyfloat
  | HyperglycemiaMsg pyfloat
  | HypoSymptomsMsg int
  | HyperSymptomsMsg int

text \<open>Rows of the tables \<open>glucose_measurements\<close> and \<open>alerts\<close>.\<close>

record glucose_row =
  g_timestamp :: time
  g_blood_glucose :: real
  g_measurement_context :: string
  g_glucose_trend :: trend

record alert_row =
  a_timestamp :: time
  a_alert_type :: string
  a_message :: message
  a_severity :: string

text \<open>
  The monitor object: the fields of \<open>self\<close> the modelled methods read or write. The lists
  \<open>timestamp\<close>, \<open>blood_glucose\<close>, \<open>glucose_trend\<close>, \<open>hypo_symptoms\<close> and \<open>hyper_symptoms\<close>
  are the entries of \<open>self.data\<close>; \<open>glucose_measurements\<close> and \<open>alerts\<close> are the tables of
  the SQLite database; \<open>smtp_attempts\<close> records the calls of \<open>send_email_alert\<close> that reach
  the SMTP server.
\<close>

record monitor =
  patient_id :: string
  patient_name :: string
  diabetes_type :: int
  config :: config
  timestamp :: "time list"
  blood_glucose :: "real list"
  glucose_trend :: "trend list"
  hypo_symptoms :: "int list"
  hyper_symptoms :: "int list"
  glucose_measurements :: "glucose_row list"
  alerts :: "alert_row list"
  smtp_attempts :: "(message \<times> string) list"

text \<open>
  \<open>__init__\<close> for a patient whose database file does not exist yet: empty lists in memory,
  empty tables.
\<close>

definition init_monitor :: "string \<Rightarrow> string \<Rightarrow> int \<Rightarrow> config \<Rightarrow> monitor" where
  "init_monitor pid pname dtype cfg =
     \<lparr> patient_id = pid, patient_name = pname, diabetes_type = dtype, config = cfg,
       timestamp = [], blood_glucose = [], glucose_trend = [],
       hypo_symptoms = [], hyper_symptoms = [],
       glucose_measurements = [], alerts = [], smtp_attempts = [] \<rparr>"

section \<open>Alerts\<close>

text \<open>Python's \<open>sub in s\<close> on strings.\<close>

fun starts_with :: "string \<Rightarrow> string \<Rightarrow> bool" where
  "starts_with [] s = True"
| "starts_with (c # cs) [] = False"
| "starts_with (c # cs) (d # ds) = (c = d \<and> starts_with cs ds)"

fun py_in :: "string \<Rightarrow> string \<Rightarrow> bool" where
  "py_in sub [] = starts_with sub []"
| "py_in sub (d # ds) = (starts_with sub (d # ds) \<or> py_in sub ds)"

definition alert_severity :: "string \<Rightarrow> string" where
  "alert_severity alert_type =
     (if alert_type = ''severe_hyperglycemia'' \<or> py_in ''hypo'' alert_type
      then ''high'' else ''medium'')"

text \<open>
  \<open>send_email_alert\<close> returns early without a sender or without recipients; otherwise it
  talks to the SMTP server inside \<open>try\<close>/\<open>except Exception\<close>, so it never raises.
\<close>

definition send_email_alert :: "monitor \<Rightarrow> message \<Rightarrow> string \<Rightarrow> monitor" where
  "send_email_alert self msg sev =
     (if sender_email (email_alerts (config self)) = []
         \<or> recipient_emails (email_alerts (config self)) = []
      then self
      else self\<lparr> smtp_attempts := smtp_attempts self @ [(msg, sev)] \<rparr>)"

text \<open>\<open>send_alert\<close>; \<open>now\<close> is the value of \<open>datetime.now()\<close> read there.\<close>

definition send_alert :: "monitor \<Rightarrow> string \<Rightarrow> message \<Rightarrow> time \<Rightarrow> monitor" where
  "send_alert self alert_type msg now =
     (let sev = alert_severity alert_type;
          self1 = self\<lparr> alerts := alerts self @
                    [\<lparr> a_timestamp = now, a_alert_type = alert_type,
                       a_message = msg, a_severity = sev \<rparr>] \<rparr>
      in if enabled (email_alerts (config self1))
         then send_email_alert self1 msg sev
         else self1)"

definition check_glucose_alerts :: "monitor \<Rightarrow> pyfloat \<Rightarrow> time \<Rightarrow> monitor \<times> bool" where
  "check_glucose_alerts self glucose_value now =
     (let thresholds = alert_thresholds (config self) in
      if fl_lt glucose_value (hypoglycemia thresholds)
      then (send_alert self ''hypoglycemia'' (HypoglycemiaDetected glucose_value) now, True)
      else if fl_gt glucose_value (severe_hyperglycemia thresholds)
      then (send_alert self ''severe_hyperglycemia'' (SevereHyperglycemiaMsg glucose_value) now,
            True)
      else if fl_gt glucose_value (hyperglycemia thresholds)
      then (send_alert self ''hyperglycemia'' (HyperglycemiaMsg glucose_value) now, True)
      else (self, True))"

definition log_symptoms :: "monitor \<Rightarrow> string \<Rightarrow> int \<Rightarrow> time \<Rightarrow> monitor \<times> bool" where
  "log_symptoms self symptom_type sev now =
     (if symptom_type = ''hypo''
      then (let self1 = self\<lparr> hypo_symptoms := hypo_symptoms self @ [sev] \<rparr> in
            if real_of_int sev \<ge> hypo_symptoms_severity (alert_thresholds (config self1))
            then (send_alert self1 ''hypo_symptoms'' (HypoSymptomsMsg sev) now, True)
            else (self1, True))
      else (let self1 = self\<lparr> hyper_symptoms := hyper_symptoms self @ [sev] \<rparr> in
            if real_of_int sev \<ge> hypo_symptoms_severity (alert_thresholds (config self1))
            then (send_alert self1 ''hyper_symptoms'' (HyperSymptomsMsg sev) now, True)
            else (self1, True)))"

section \<open>Simulated measurements and their trend\<close>

text \<open>
  Rounding to the nearest integer, a tie going to the even one.
\<close>

definition round_half_even :: "real \<Rightarrow> int" where
  "round_half_even y =
     (let f = \<lfloor>y\<rfloor>; d = y - of_int f in
      if d < 1 / 2 then f
      else if d > 1 / 2 then f + 1
      else if even f then f else f + 1)"

text \<open>
  IEEE-754 binary64 arithmetic, as Python's \<open>float\<close> has it: the result of an operation is
  its exact result rounded to the nearest double, a tie going to the double with an even
  significand. \<open>binade x\<close> is the exponent \<open>e\<close> with \<open>2^e \<le> |x| < 2^(e+1)\<close>, a double of this
  binade is a multiple of \<open>ulp x = 2^(e-52)\<close>. The exponent range is not bounded in the
  model: results of magnitude \<open>2^1024\<close> and more (overflow) or below \<open>2^-1022\<close> (subnormal)
  are outside it, and none arises from adding 5 or 15 to a double or from glucose values.
\<close>

definition binade :: "real \<Rightarrow> int" where
  "binade x =
     (if \<bar>x\<bar> \<ge> 1 then bitlen \<lfloor>\<bar>x\<bar>\<rfloor> - 1 else - bitlen (\<lceil>1 / \<bar>x\<bar>\<rceil> - 1))"

definition pow2 :: "int \<Rightarrow> real" where
  "pow2 e = (if e \<ge> 0 then 2 ^ nat e else 1 / 2 ^ nat (- e))"

definition ulp :: "real \<Rightarrow> real" where
  "ulp x = pow2 (binade x - 52)"

definition round_double :: "real \<Rightarrow> real" where
  "round_double x = of_int (round_half_even (x / ulp x)) * ulp x"

definition is_double :: "real \<Rightarrow> bool" where
  "is_double x \<longleftrightarrow> round_double x = x"

definition fadd :: "real \<Rightarrow> real \<Rightarrow> real" where
  "fadd a b = round_double (a + b)"

definition fsub :: "real \<Rightarrow> real \<Rightarrow> real" where
  "fsub a b = round_double (a - b)"


text \<open>The five-way comparison of a new value with the last reading.\<close>

definition trend_against :: "real \<Rightarrow> real \<Rightarrow> trend" where
  "trend_against glucose_value last_reading =
     (if glucose_value > fadd last_reading 15 then StrongUp
      else if glucose_value > fadd last_reading 5 then Up
      else if glucose_value < fsub last_reading 15 then StrongDown
      else if glucose_value < fsub last_reading 5 then Down
      else Stable)"

definition determine_trend :: "real \<Rightarrow> real list \<Rightarrow> trend" where
  "determine_trend glucose_value readings =
     (if length readings > 0 then trend_against glucose_value (last readings) else Stable)"






section \<open>Forecast\<close>

text \<open>Python's slice \<open>xs[k:]\<close> for an integer \<open>k\<close>: a negative \<open>k\<close> counts from the end.\<close>

definition py_slice_from :: "int \<Rightarrow> 'a list \<Rightarrow> 'a list" where
  "py_slice_from k xs =
     (if k < 0 then drop (length xs - nat (- k)) xs else drop (nat k) xs)"

text \<open>
  \<open>LinearRegression().fit(X, y)\<close> of scikit-learn with the single feature
  \<open>X = arange(len(y))\<close>, so that the feature of sample \<open>i\<close> is \<open>i\<close>: the library centres \<open>X\<close> and \<open>y\<close>, takes the least-squares solution
  of the centred system (the minimum-norm one, \<open>0\<close>, when the centred feature is all zero)
  as \<open>coef_\<close> and \<open>y_mean - x_mean * coef_\<close> as \<open>intercept_\<close>. The library is not part of
  the repository; this is its documented result, in exact arithmetic.
\<close>

definition linreg_fit :: "real list \<Rightarrow> real \<times> real" where
  "linreg_fit y =
     (let n = length y;
          x_mean = sum_list (map real [0..<n]) / real n;
          y_mean = sum_list y / real n;
          sxx = sum_list (map (\<lambda>i. (real i - x_mean) * (real i - x_mean)) [0..<n]);
          sxy = sum_list (map (\<lambda>i. (real i - x_mean) * (y ! i - y_mean)) [0..<n]);
          coef = (if sxx = 0 then 0 else sxy / sxx);
          intercept = y_mean - coef * x_mean
      in (coef, intercept))"

text \<open>
  Lines 317 to 332 of \<open>predict_glucose_trend\<close>: the window, the fit and the predictions.
  The library's input validation raises \<open>ValueError\<close> on an array with no sample, which
  is what \<open>fit\<close> gets from an empty window and \<open>predict\<close> from \<open>hours \<le> 0\<close>.
\<close>

definition forecast_predictions :: "monitor \<Rightarrow> int \<Rightarrow> error + real list" where
  "forecast_predictions self hours =
     (let ws = window_size (prediction_settings (config self));
          glucose_data = py_slice_from (- ws) (blood_glucose self)
      in if glucose_data = [] then Inl ValueError
         else (let (coef, intercept) = linreg_fit glucose_data;
                   n = length glucose_data
               in if hours \<le> 0 then Inl ValueError
                  else Inr (map (\<lambda>i. coef * real i + intercept) [n ..< n + nat hours])))"

text \<open>
  A predicted breach: the number of hours ahead and the predicted value (which the message
  prints with one decimal).
\<close>

datatype breach = HypoForecast nat real | SevereHyperForecast nat real

fun hours_ahead :: "breach \<Rightarrow> nat" where
  "hours_ahead (HypoForecast h p) = h"
| "hours_ahead (SevereHyperForecast h p) = h"

fun predicted_value :: "breach \<Rightarrow> real" where
  "predicted_value (HypoForecast h p) = p"
| "predicted_value (SevereHyperForecast h p) = p"

text \<open>The loop \<open>for i, pred in enumerate(predictions)\<close>, from index \<open>i\<close> on.\<close>

fun scan_predictions :: "alert_thresholds \<Rightarrow> nat \<Rightarrow> real list \<Rightarrow> breach list \<Rightarrow> breach list" where
  "scan_predictions th i [] found = found"
| "scan_predictions th i (pred # rest) found =
     scan_predictions th (i + 1) rest
       (if pred < hypoglycemia th then found @ [HypoForecast (i + 1) pred]
        else if pred > severe_hyperglycemia th then found @ [SevereHyperForecast (i + 1) pred]
        else found)"

text \<open>The three kinds of text \<open>predict_glucose_trend\<close> returns.\<close>

datatype forecast = InsufficientData | BreachAlerts "breach list" | NoAnomaly

definition predict_glucose_trend :: "monitor \<Rightarrow> int \<Rightarrow> error + forecast" where
  "predict_glucose_trend self hours =
     (if int (length (blood_glucose self)) < window_size (prediction_settings (config self))
      then Inr InsufficientData
      else (case forecast_predictions self hours of
              Inl e \<Rightarrow> Inl e
            | Inr predictions \<Rightarrow>
                (let found = scan_predictions (alert_thresholds (config self)) 0 predictions []
                 in if found \<noteq> [] then Inr (BreachAlerts found) else Inr NoAnomaly)))"

section \<open>Report\<close>

fun list_min :: "real list \<Rightarrow> real" where
  "list_min [] = 0"
| "list_min (v # vs) = fold min vs v"

fun list_max :: "real list \<Rightarrow> real" where
  "list_max [] = 0"
| "list_max (v # vs) = fold max vs v"

record report =
  r_patient_name :: string
  r_diabetes_type :: int
  r_hours :: int
  mean_glucose :: real
  min_glucose :: real
  max_glucose :: real
  hypo_episodes :: nat
  hyper_episodes :: nat
  severe_hyper_episodes :: nat
  prediction :: forecast
  r_targets :: target_ranges

datatype report_result = NoData | Report report

text \<open>
  \<open>generate_diabetes_report\<close>; \<open>df_glucose\<close> is the result of the SQL query, the rows of
  \<open>glucose_measurements\<close> of the last \<open>hours\<close> hours in the order of their timestamps. The
  report text prints the numbers of the record (the statistics with one decimal).
  \<open>list_min\<close> and \<open>list_max\<close> are only applied to a non-empty column.
\<close>

definition generate_diabetes_report ::
  "monitor \<Rightarrow> glucose_row list \<Rightarrow> int \<Rightarrow> error + report_result" where
  "generate_diabetes_report self df_glucose hours =
     (if df_glucose = [] then Inr NoData
      else (let col = map g_blood_glucose df_glucose;
                th = alert_thresholds (config self);
                mean_g = sum_list col / real (length col);
                min_g = list_min col;
                max_g = list_max col;
                hypo_n = length (filter (\<lambda>v. v < hypoglycemia th) col);
                hyper_n = length (filter (\<lambda>v. v > hyperglycemia th) col);
                severe_n = length (filter (\<lambda>v. v > severe_hyperglycemia th) col)
            in case predict_glucose_trend self 4 of
                 Inl e \<Rightarrow> Inl e
               | Inr p \<Rightarrow>
                   Inr (Report \<lparr> r_patient_name = patient_name self,
                                 r_diabetes_type = diabetes_type self,
                                 r_hours = hours,
                                 mean_glucose = mean_g, min_glucose = min_g,
                                 max_glucose = max_g,
                                 hypo_episodes = hypo_n, hyper_episodes = hyper_n,
                                 severe_hyper_episodes = severe_n,
                                 prediction = p,
                                 r_targets = target_ranges (config self) \<rparr>)))"

section \<open>Notions used to state the properties\<close>

definition type_and_severity :: "alert_row \<Rightarrow> string \<times> string" where
  "type_and_severity a = (a_alert_type a, a_severity a)"


text \<open>
  The readings in memory are the readings of the last rows of the table: the rows recorded
  since the monitor object was created.
\<close>

definition memory_ends_table :: "monitor \<Rightarrow> bool" where
  "memory_ends_table self \<longleftrightarrow>
     length (blood_glucose self) \<le> length (glucose_measurements self)
     \<and> blood_glucose self =
         drop (length (glucose_measurements self) - length (blood_glucose self))
              (map g_blood_glucose (glucose_measurements self))"

text \<open>The sum of the squared residuals of the line \<open>a * x + b\<close> on the samples \<open>(i, y ! i)\<close>.\<close>

definition squared_error :: "real list \<Rightarrow> real \<Rightarrow> real \<Rightarrow> real" where
  "squared_error y a b =
     sum_list (map (\<lambda>i. (y ! i - (a * real i + b)) * (y ! i - (a * real i + b)))
                   [0..<length y])"

text \<open>
  The breach of one forecast step, if any, and the breaches of a sequence of predictions
  whose first step has index \<open>i\<close>, step by step.
\<close>

definition breach_at :: "alert_thresholds \<Rightarrow> nat \<Rightarrow> real \<Rightarrow> breach list" where
  "breach_at th i pred =
     (if pred < hypoglycemia th then [HypoForecast (i + 1) pred]
      else if pred > severe_hyperglycemia th then [SevereHyperForecast (i + 1) pred]
      else [])"

definition expected_breaches :: "alert_thresholds \<Rightarrow> nat \<Rightarrow> real list \<Rightarrow> breach list" where
  "expected_breaches th i preds = concat (map (\<lambda>(k, p). breach_at th k p) (enumerate i preds))"

fun is_hypo_forecast :: "breach \<Rightarrow> bool" where
  "is_hypo_forecast (HypoForecast h p) = True"
| "is_hypo_forecast (SevereHyperForecast h p) = False"

text \<open>
  The forecast as the specification words it, for comparison: the least-squares line over
  all \<open>n\<close> readings handed in, at the indices \<open>0..n-1\<close>, evaluated at \<open>n, ..., n + h - 1\<close>.
\<close>

definition forecast_over_all_readings :: "real list \<Rightarrow> nat \<Rightarrow> real list" where
  "forecast_over_all_readings readings h =
     (let n = length readings; (a, b) = linreg_fit readings
      in map (\<lambda>i. a * real i + b) [n ..< n + h])"

text \<open>The three episode counts of a report, and the forecast embedded in it.\<close>

definition episode_counts :: "error + report_result \<Rightarrow> (nat \<times> nat \<times> nat) option" where
  "episode_counts res =
     (case res of
        Inl e \<Rightarrow> None
      | Inr NoData \<Rightarrow> None
      | Inr (Report r) \<Rightarrow> Some (hypo_episodes r, hyper_episodes r, severe_hyper_episodes r))"

definition embedded_forecast :: "error + report_result \<Rightarrow> (error + forecast) option" where
  "embedded_forecast res =
     (case res of
        Inl e \<Rightarrow> Some (Inl e)
      | Inr NoData \<Rightarrow> None
      | Inr (Report r) \<Rightarrow> Some (Inr (prediction r)))"

section \<open>Alerting: order of the checks, severities, absence of validation\<close>

lemma alerts_send_alert:
  "alerts (send_alert self ty msg now) =
     alerts self @ [\<lparr> a_timestamp = now, a_alert_type = ty, a_message = msg,
                      a_severity = alert_severity ty \<rparr>]"
  by (simp add: send_alert_def send_email_alert_def Let_def)

lemma data_send_alert:
  "config (send_alert self ty msg now) = config self"
  "hypo_symptoms (send_alert self ty msg now) = hypo_symptoms self"
  "hyper_symptoms (send_alert self ty msg now) = hyper_symptoms self"
  "blood_glucose (send_alert self ty msg now) = blood_glucose self"
  "glucose_trend (send_alert self ty msg now) = glucose_trend self"
  "timestamp (send_alert self ty msg now) = timestamp self"
  "glucose_measurements (send_alert self ty msg now) = glucose_measurements self"
  by (simp_all add: send_alert_def send_email_alert_def Let_def)

lemma data_check_glucose_alerts:
  "config (fst (check_glucose_alerts self v now)) = config self"
  "blood_glucose (fst (check_glucose_alerts self v now)) = blood_glucose self"
  "glucose_trend (fst (check_glucose_alerts self v now)) = glucose_trend self"
  "timestamp (fst (check_glucose_alerts self v now)) = timestamp self"
  "glucose_measurements (fst (check_glucose_alerts self v now)) = glucose_measurements self"
  "diabetes_type (fst (check_glucose_alerts self v now)) = diabetes_type self"
  by (simp_all add: check_glucose_alerts_def data_send_alert Let_def send_alert_def
      send_email_alert_def)

lemma alert_severity_values:
  "alert_severity ''hypoglycemia'' = ''high''"
  "alert_severity ''severe_hyperglycemia'' = ''high''"
  "alert_severity ''hyperglycemia'' = ''medium''"
  "alert_severity ''hypo_symptoms'' = ''high''"
  "alert_severity ''hyper_symptoms'' = ''medium''"
  by (simp_all add: alert_severity_def)

text \<open>
  C1. \<open>check_glucose_alerts\<close> tests hypoglycemia first, then severe hyperglycemia, then
  hyperglycemia, each with a strict comparison, and raises the alert of the first test
  that succeeds and no other: the alert table grows by at most one row. With the
  thresholds 70, 180 and 250 of the default configuration, 69.9 raises hypoglycemia,
  250.1 severe hyperglycemia, 180.1 hyperglycemia, and 150 nothing.
\<close>

theorem check_glucose_alerts_order:
  "map a_alert_type (alerts (fst (check_glucose_alerts self v now))) =
     map a_alert_type (alerts self) @
       (if fl_lt v (hypoglycemia (alert_thresholds (config self))) then [''hypoglycemia'']
        else if fl_gt v (severe_hyperglycemia (alert_thresholds (config self)))
        then [''severe_hyperglycemia'']
        else if fl_gt v (hyperglycemia (alert_thresholds (config self))) then [''hyperglycemia'']
        else [])
   \<and> length (alerts (fst (check_glucose_alerts self v now))) \<le> length (alerts self) + 1
   \<and> map a_alert_type (alerts (fst (check_glucose_alerts
         (init_monitor pid pname dtype default_config) (Finite 69.9) now))) = [''hypoglycemia'']
   \<and> map a_alert_type (alerts (fst (check_glucose_alerts
         (init_monitor pid pname dtype default_config) (Finite 250.1) now)))
       = [''severe_hyperglycemia'']
   \<and> map a_alert_type (alerts (fst (check_glucose_alerts
         (init_monitor pid pname dtype default_config) (Finite 180.1) now))) = [''hyperglycemia'']
   \<and> map a_alert_type (alerts (fst (check_glucose_alerts
         (init_monitor pid pname dtype default_config) (Finite 150) now))) = []"
  by (simp add: check_glucose_alerts_def alerts_send_alert Let_def init_monitor_def
      default_config_def)

text \<open>
  C2, as the claim states it, fails: a hyperglycemia symptom report of severity 8 raises
  the alert \<open>hyper_symptoms\<close> with severity \<open>medium\<close>, since \<open>send_alert\<close> gives \<open>high\<close>
  only to \<open>severe_hyperglycemia\<close> and to the types that contain \<open>hypo\<close>.
\<close>

theorem hyper_symptoms_medium_counterexample:
  "map type_and_severity (alerts (fst (log_symptoms
      (init_monitor ''DIA456'' ''Marie Dupont'' 1 default_config) ''hyper'' 8 0)))
   = [(''hyper_symptoms'', ''medium'')]"
  by (simp add: log_symptoms_def alerts_send_alert alert_severity_values type_and_severity_def
      init_monitor_def default_config_def)

text \<open>
  C2, amended. Every alert the two evaluations raise carries the severity \<open>high\<close> for
  \<open>hypoglycemia\<close>, \<open>severe_hyperglycemia\<close> and \<open>hypo_symptoms\<close>, and \<open>medium\<close> for
  \<open>hyperglycemia\<close> and \<open>hyper_symptoms\<close>; the row \<open>send_alert\<close> stores has the severity
  \<open>alert_severity\<close> computes from the type, which is never anything but \<open>high\<close> or
  \<open>medium\<close>.
\<close>

theorem alert_severities:
  "map type_and_severity (alerts (fst (check_glucose_alerts self v now))) =
     map type_and_severity (alerts self) @
       (if fl_lt v (hypoglycemia (alert_thresholds (config self)))
        then [(''hypoglycemia'', ''high'')]
        else if fl_gt v (severe_hyperglycemia (alert_thresholds (config self)))
        then [(''severe_hyperglycemia'', ''high'')]
        else if fl_gt v (hyperglycemia (alert_thresholds (config self)))
        then [(''hyperglycemia'', ''medium'')]
        else [])
   \<and> map type_and_severity (alerts (fst (log_symptoms self symptom_type sev now))) =
     map type_and_severity (alerts self) @
       (if real_of_int sev \<ge> hypo_symptoms_severity (alert_thresholds (config self))
        then [if symptom_type = ''hypo'' then (''hypo_symptoms'', ''high'')
              else (''hyper_symptoms'', ''medium'')]
        else [])
   \<and> a_severity (last (alerts (send_alert self alert_type msg now))) = alert_severity alert_type
   \<and> (alert_severity alert_type = ''high'' \<or> alert_severity alert_type = ''medium'')"
  by (simp add: check_glucose_alerts_def log_symptoms_def alerts_send_alert
      alert_severity_values type_and_severity_def Let_def) (simp add: alert_severity_def)

text \<open>
  C4, as the claim states it, fails: nothing validates the inputs. The value \<open>+inf\<close>
  raises and stores a severe hyperglycemia alert and the call returns \<open>True\<close>; a
  hypoglycemia symptom report of severity 11 is appended to the symptom list, raises and
  stores the alert \<open>hypo_symptoms\<close>, and the call returns \<open>True\<close>.
\<close>

theorem no_input_validation_counterexample:
  "map a_alert_type (alerts (fst (check_glucose_alerts
      (init_monitor ''DIA456'' ''Marie Dupont'' 1 default_config) PosInf 0)))
     = [''severe_hyperglycemia'']
   \<and> snd (check_glucose_alerts
      (init_monitor ''DIA456'' ''Marie Dupont'' 1 default_config) PosInf 0) = True
   \<and> map a_alert_type (alerts (fst (log_symptoms
      (init_monitor ''DIA456'' ''Marie Dupont'' 1 default_config) ''hypo'' 11 0)))
     = [''hypo_symptoms'']
   \<and> hypo_symptoms (fst (log_symptoms
      (init_monitor ''DIA456'' ''Marie Dupont'' 1 default_config) ''hypo'' 11 0)) = [11]
   \<and> snd (log_symptoms
      (init_monitor ''DIA456'' ''Marie Dupont'' 1 default_config) ''hypo'' 11 0) = True"
  by (simp add: check_glucose_alerts_def log_symptoms_def alerts_send_alert data_send_alert
      init_monitor_def default_config_def)

text \<open>
  C4, amended. Neither evaluation validates its input or fails: both return \<open>True\<close> for
  every input. \<open>log_symptoms\<close> appends every severity, inside \<open>[1,10]\<close> or not, to the list
  of its symptom kind and raises one alert exactly when the severity reaches the
  configured level. \<open>check_glucose_alerts\<close> raises severe hyperglycemia on \<open>+inf\<close>,
  hypoglycemia on \<open>-inf\<close>, and leaves the monitor unchanged on a NaN.
\<close>

theorem no_input_validation:
  "snd (check_glucose_alerts self v now) = True
   \<and> snd (log_symptoms self symptom_type sev now) = True
   \<and> hypo_symptoms (fst (log_symptoms self symptom_type sev now)) =
       hypo_symptoms self @ (if symptom_type = ''hypo'' then [sev] else [])
   \<and> hyper_symptoms (fst (log_symptoms self symptom_type sev now)) =
       hyper_symptoms self @ (if symptom_type = ''hypo'' then [] else [sev])
   \<and> length (alerts (fst (log_symptoms self symptom_type sev now))) =
       length (alerts self) +
       (if real_of_int sev \<ge> hypo_symptoms_severity (alert_thresholds (config self))
        then 1 else 0)
   \<and> map a_alert_type (alerts (fst (check_glucose_alerts self PosInf now))) =
       map a_alert_type (alerts self) @ [''severe_hyperglycemia'']
   \<and> map a_alert_type (alerts (fst (check_glucose_alerts self NegInf now))) =
       map a_alert_type (alerts self) @ [''hypoglycemia'']
   \<and> fst (check_glucose_alerts self NaN now) = self"
  by (simp add: check_glucose_alerts_def log_symptoms_def alerts_send_alert data_send_alert
      Let_def)

section \<open>Rounding to double precision\<close>

lemma pow2_powi: "pow2 e = 2 powi e"
  by (simp add: pow2_def power_int_def field_simps)

lemma pow2_pos: "0 < pow2 e"
  by (simp add: pow2_powi)

lemma pow2_add: "pow2 (a + b) = pow2 a * pow2 b"
  by (simp add: pow2_powi power_int_add)

lemma pow2_mono: "a \<le> b \<Longrightarrow> pow2 a \<le> pow2 b"
  by (simp add: pow2_powi power_int_increasing)

lemma binade_abs: "binade (- x) = binade x"
  by (simp add: binade_def)

text \<open>The binade of a number contains it.\<close>

lemma binade_bounds:
  assumes "x \<noteq> 0"
  shows "pow2 (binade x) \<le> \<bar>x\<bar>" and "\<bar>x\<bar> < pow2 (binade x + 1)"
proof -
  have "pow2 (binade x) \<le> \<bar>x\<bar> \<and> \<bar>x\<bar> < pow2 (binade x + 1)"
  proof (cases "\<bar>x\<bar> \<ge> 1")
    case True
    define m where "m = \<lfloor>\<bar>x\<bar>\<rfloor>"
    have m1: "1 \<le> m" using True by (simp add: m_def le_floor_iff)
    then have m0: "0 < m" by simp
    have b1: "1 \<le> bitlen m" using m0 by (simp add: bitlen_alt_def)
    have e: "binade x = bitlen m - 1" using True by (simp add: binade_def m_def)
    from bitlen_bounds [OF m0]
    have lo: "(2::int) ^ nat (bitlen m - 1) \<le> m" and hi: "m < 2 ^ nat (bitlen m)" by simp_all
    have "pow2 (bitlen m - 1) = real_of_int (2 ^ nat (bitlen m - 1))"
      using b1 by (simp add: pow2_def)
    also have "\<dots> \<le> real_of_int m" using lo by (simp only: of_int_le_iff)
    also have "\<dots> \<le> \<bar>x\<bar>" by (simp add: m_def)
    finally have 1: "pow2 (binade x) \<le> \<bar>x\<bar>" by (simp add: e)
    have "m + 1 \<le> 2 ^ nat (bitlen m)" using hi by simp
    then have "real_of_int (m + 1) \<le> real_of_int (2 ^ nat (bitlen m))"
      by (simp only: of_int_le_iff)
    moreover have "\<bar>x\<bar> < real_of_int (m + 1)" by (simp add: m_def)
    moreover have "pow2 (bitlen m) = real_of_int (2 ^ nat (bitlen m))"
      using b1 by (simp add: pow2_def)
    ultimately have 2: "\<bar>x\<bar> < pow2 (binade x + 1)" by (simp add: e)
    from 1 2 show ?thesis ..
  next
    case False
    define y where "y = 1 / \<bar>x\<bar>"
    define m where "m = \<lceil>y\<rceil> - 1"
    have x0: "0 < \<bar>x\<bar>" and x1: "\<bar>x\<bar> < 1" using assms False by simp_all
    have y1: "1 < y" using x0 x1 by (simp add: y_def)
    have my: "real_of_int m < y" and ym: "y \<le> real_of_int m + 1"
      unfolding m_def by linarith+
    have m1: "1 \<le> m" using y1 ym by linarith
    then have m0: "0 < m" by simp
    have b1: "1 \<le> bitlen m" using m0 by (simp add: bitlen_alt_def)
    have e: "binade x = - bitlen m" using False by (simp add: binade_def m_def y_def)
    from bitlen_bounds [OF m0]
    have lo: "(2::int) ^ nat (bitlen m - 1) \<le> m" and hi: "m < 2 ^ nat (bitlen m)" by simp_all
    have "m + 1 \<le> 2 ^ nat (bitlen m)" using hi by simp
    then have "real_of_int (m + 1) \<le> real_of_int (2 ^ nat (bitlen m))"
      by (simp only: of_int_le_iff)
    with ym have yhi: "y \<le> 2 ^ nat (bitlen m)" by simp
    have "(2::real) ^ nat (bitlen m - 1) \<le> real_of_int m"
    proof -
      have "real_of_int (2 ^ nat (bitlen m - 1)) \<le> real_of_int m"
        using lo by (rule of_int_le_iff [THEN iffD2])
      then show ?thesis by (simp only: of_int_power of_int_numeral)
    qed
    with my have ylo: "2 ^ nat (bitlen m - 1) < y" by linarith
    have xy: "\<bar>x\<bar> = 1 / y" using x0 by (simp add: y_def)
    have y0: "0 < y" using y1 by simp
    have 1: "pow2 (binade x) \<le> \<bar>x\<bar>"
      using b1 yhi y0 by (simp add: e pow2_def xy frac_le)
    have "pow2 (binade x + 1) = 1 / 2 ^ nat (bitlen m - 1)"
      using b1 by (auto simp add: e pow2_def)
    moreover have "1 / y < 1 / 2 ^ nat (bitlen m - 1)"
      using ylo by (simp add: frac_less2)
    ultimately have 2: "\<bar>x\<bar> < pow2 (binade x + 1)" by (simp add: xy)
    from 1 2 show ?thesis ..
  qed
  then show "pow2 (binade x) \<le> \<bar>x\<bar>" and "\<bar>x\<bar> < pow2 (binade x + 1)" by simp_all
qed

lemma round_half_even_bounds:
  "y - 1 / 2 \<le> of_int (round_half_even y)" "of_int (round_half_even y) \<le> y + 1 / 2"
  unfolding round_half_even_def Let_def by (auto; linarith)+

lemma round_half_even_of_int: "round_half_even (of_int k) = k"
  by (simp add: round_half_even_def)

lemma round_half_even_mono:
  assumes "x \<le> y"
  shows "round_half_even x \<le> round_half_even y"
proof (cases "\<lfloor>x\<rfloor> = \<lfloor>y\<rfloor>")
  case True
  with assms show ?thesis
    unfolding round_half_even_def Let_def by (auto; linarith)
next
  case False
  with assms have "\<lfloor>x\<rfloor> + 1 \<le> \<lfloor>y\<rfloor>"
    using floor_mono [of x y] by linarith
  moreover have "round_half_even x \<le> \<lfloor>x\<rfloor> + 1"
    unfolding round_half_even_def Let_def by auto
  moreover have "\<lfloor>y\<rfloor> \<le> round_half_even y"
    unfolding round_half_even_def Let_def by auto
  ultimately show ?thesis by linarith
qed

lemma round_half_even_minus: "round_half_even (- y) = - round_half_even y"
proof (cases "y = of_int \<lfloor>y\<rfloor>")
  case True
  then obtain k where "y = of_int k" ..
  then show ?thesis
    by (simp add: round_half_even_of_int flip: of_int_minus)
next
  case False
  then have f: "\<lfloor>- y\<rfloor> = - \<lfloor>y\<rfloor> - 1"
    by (simp add: floor_minus ceiling_altdef)
  have d: "0 < y - of_int \<lfloor>y\<rfloor>" "y - of_int \<lfloor>y\<rfloor> < 1"
    using False by linarith+
  show ?thesis
    unfolding round_half_even_def Let_def f using d by (auto; linarith)
qed

lemma ulp_pos: "0 < ulp x"
  by (simp add: ulp_def pow2_pos)

lemma ulp_minus: "ulp (- x) = ulp x"
  by (simp add: ulp_def binade_abs)

lemma round_double_zero: "round_double 0 = 0"
  by (simp add: round_double_def round_half_even_def)

lemma round_double_minus: "round_double (- x) = - round_double x"
  by (simp add: round_double_def ulp_minus round_half_even_minus)

lemma pow2_numeral: "pow2 52 = 2 ^ 52" "pow2 53 = 2 ^ 53"
  by (simp_all add: pow2_def)

lemma pow2_binade: "pow2 (binade x) = 2 ^ 52 * ulp x" "pow2 (binade x + 1) = 2 ^ 53 * ulp x"
  using pow2_add [of 52 "binade x - 52"] pow2_add [of 53 "binade x - 52"]
  by (simp_all add: ulp_def pow2_numeral add.commute)

text \<open>Rounding stays inside the closed binade.\<close>

lemma round_double_pos_bounds:
  assumes "0 < x"
  shows "pow2 (binade x) \<le> round_double x" and "round_double x \<le> pow2 (binade x + 1)"
proof -
  define q where "q = ulp x"
  have q0: "0 < q" by (simp add: q_def ulp_pos)
  have lo: "pow2 (binade x) = 2 ^ 52 * q" and hi: "pow2 (binade x + 1) = 2 ^ 53 * q"
    by (simp_all only: q_def pow2_binade)
  from binade_bounds [of x] assms
  have "2 ^ 52 * q \<le> x" and "x < 2 ^ 53 * q" by (simp_all add: lo hi)
  then have "of_int (2 ^ 52) \<le> x / q" and "x / q \<le> of_int (2 ^ 53)"
    using q0 by (simp_all add: field_simps)
  then have "2 ^ 52 \<le> round_half_even (x / q)" and "round_half_even (x / q) \<le> 2 ^ 53"
    using round_half_even_mono [of "of_int (2 ^ 52)" "x / q"]
      round_half_even_mono [of "x / q" "of_int (2 ^ 53)"]
    by (simp_all only: round_half_even_of_int)
  then have "real_of_int (2 ^ 52) \<le> of_int (round_half_even (x / q))"
    and "real_of_int (round_half_even (x / q)) \<le> of_int (2 ^ 53)"
    by (simp_all only: of_int_le_iff)
  then have "(2::real) ^ 52 \<le> of_int (round_half_even (x / q))"
    and "of_int (round_half_even (x / q)) \<le> (2::real) ^ 53"
    by simp_all
  then have "2 ^ 52 * q \<le> of_int (round_half_even (x / q)) * q"
    and "of_int (round_half_even (x / q)) * q \<le> 2 ^ 53 * q"
    using q0 by simp_all
  then show "pow2 (binade x) \<le> round_double x" and "round_double x \<le> pow2 (binade x + 1)"
    by (simp_all add: lo hi round_double_def q_def)
qed

lemma round_double_pos: "0 < x \<Longrightarrow> 0 < round_double x"
  using round_double_pos_bounds(1) [of x] pow2_pos [of "binade x"] by linarith

lemma round_double_mono_pos:
  assumes "0 < x" and "x \<le> y"
  shows "round_double x \<le> round_double y"
proof -
  have y0: "0 < y" using assms by simp
  have "pow2 (binade x) < pow2 (binade y + 1)"
    using binade_bounds(1) [of x] binade_bounds(2) [of y] assms by simp
  then have "\<not> binade y + 1 \<le> binade x"
    using pow2_mono [of "binade y + 1" "binade x"] by linarith
  then consider "binade x = binade y" | "binade x + 1 \<le> binade y" by linarith
  then show ?thesis
  proof cases
    case 1
    then have u: "ulp x = ulp y" by (simp add: ulp_def)
    have "x / ulp y \<le> y / ulp y"
      using assms ulp_pos [of y] by (simp add: divide_right_mono)
    then have "round_half_even (x / ulp y) \<le> round_half_even (y / ulp y)"
      by (rule round_half_even_mono)
    then have "real_of_int (round_half_even (x / ulp y))
        \<le> real_of_int (round_half_even (y / ulp y))"
      by simp
    then show ?thesis
      using ulp_pos [of y] by (simp add: round_double_def u)
  next
    case 2
    have "round_double x \<le> pow2 (binade x + 1)"
      by (rule round_double_pos_bounds(2) [OF assms(1)])
    also have "\<dots> \<le> pow2 (binade y)" using 2 by (rule pow2_mono)
    also have "\<dots> \<le> round_double y" by (rule round_double_pos_bounds(1) [OF y0])
    finally show ?thesis .
  qed
qed

text \<open>Rounding is monotone.\<close>

lemma round_double_mono:
  assumes "x \<le> y"
  shows "round_double x \<le> round_double y"
proof -
  consider "0 < x" | "x \<le> 0" "0 \<le> y" | "y < 0" using assms by linarith
  then show ?thesis
  proof cases
    case 1
    then show ?thesis using assms by (rule round_double_mono_pos)
  next
    case 2
    have "round_double x \<le> 0"
    proof (cases "x = 0")
      case True then show ?thesis by (simp add: round_double_zero)
    next
      case False
      with 2 have "0 < - x" by simp
      from round_double_pos [OF this] show ?thesis by (simp add: round_double_minus)
    qed
    moreover have "0 \<le> round_double y"
    proof (cases "y = 0")
      case True then show ?thesis by (simp add: round_double_zero)
    next
      case False
      with 2 have "0 < y" by simp
      from round_double_pos [OF this] show ?thesis by simp
    qed
    ultimately show ?thesis by linarith
  next
    case 3
    then have "0 < - y" and "- y \<le> - x" using assms by simp_all
    from round_double_mono_pos [OF this] show ?thesis by (simp add: round_double_minus)
  qed
qed

text \<open>The rounding error is at most half a unit in the last place.\<close>

lemma round_double_error: "\<bar>round_double x - x\<bar> \<le> ulp x / 2"
proof -
  have q0: "0 < ulp x" by (rule ulp_pos)
  from round_half_even_bounds [of "x / ulp x"]
  have "\<bar>of_int (round_half_even (x / ulp x)) - x / ulp x\<bar> \<le> 1 / 2" by linarith
  then have "\<bar>of_int (round_half_even (x / ulp x)) - x / ulp x\<bar> * ulp x \<le> 1 / 2 * ulp x"
    using q0 by (simp only: mult_le_cancel_right) simp
  moreover have "\<bar>of_int (round_half_even (x / ulp x)) - x / ulp x\<bar> * ulp x
      = \<bar>round_double x - x\<bar>"
  proof -
    have "(of_int (round_half_even (x / ulp x)) - x / ulp x) * ulp x = round_double x - x"
      using q0 by (simp add: round_double_def left_diff_distrib)
    then have "\<bar>round_double x - x\<bar>
        = \<bar>of_int (round_half_even (x / ulp x)) - x / ulp x\<bar> * \<bar>ulp x\<bar>"
      by (simp only: abs_mult [symmetric])
    with q0 show ?thesis by simp
  qed
  ultimately show ?thesis by simp
qed

lemma ulp_le: "ulp x \<le> \<bar>x\<bar> / 2 ^ 52" if "x \<noteq> 0"
  using binade_bounds(1) [OF that] by (simp add: pow2_binade field_simps)

lemma rounded_offsets_ordered:
  "fsub p 15 \<le> fsub p 5" "fsub p 5 \<le> fadd p 5" "fadd p 5 \<le> fadd p 15"
  unfolding fadd_def fsub_def by (rule round_double_mono, simp)+

lemma double_below_rounded: "is_double c \<Longrightarrow> c \<le> t \<Longrightarrow> c \<le> round_double t"
  using round_double_mono [of c t] by (simp add: is_double_def)

lemma double_above_rounded: "is_double c \<Longrightarrow> t \<le> c \<Longrightarrow> round_double t \<le> c"
  using round_double_mono [of t c] by (simp add: is_double_def)

lemma rounded_sum_close:
  assumes "\<bar>p\<bar> \<le> 2 ^ 53"
  shows "fadd p 5 < p + 15"
proof (cases "p + 5 = 0")
  case True
  then show ?thesis by (simp add: fadd_def round_double_zero)
next
  case False
  have "\<bar>round_double (p + 5) - (p + 5)\<bar> \<le> ulp (p + 5) / 2"
    by (rule round_double_error)
  also have "\<dots> \<le> \<bar>p + 5\<bar> / 2 ^ 52 / 2"
    using ulp_le [OF False] by simp
  also have "\<dots> \<le> (2 ^ 53 + 5) / 2 ^ 52 / 2"
    using assms by (simp add: divide_right_mono)
  also have "\<dots> < 10" by simp
  finally show ?thesis unfolding fadd_def by linarith
qed

lemmas rounding_defs =
  round_double_def ulp_def pow2_def binade_def round_half_even_def compute_bitlen Let_def

section \<open>Trend of a measurement\<close>

text \<open>
  C3, as the claim states it, fails: the classifier compares the new value with the
  rounded float sum, not the difference with 15. The doubles nearest to 50.4 and 65.4
  differ by more than 15, but the float sum of the first and 15 is the second, so the
  test for a strong increase fails and the trend is Up.
\<close>

theorem rounded_sum_counterexample:
  "round_double 50.4 = 7093169413108531 / 140737488355328
   \<and> round_double 65.4 = 2301057934609613 / 35184372088832
   \<and> (2301057934609613 / 35184372088832 - 7093169413108531 / 140737488355328 > (15::real))
   \<and> trend_against (2301057934609613 / 35184372088832) (7093169413108531 / 140737488355328)
       = Up"
  by (simp add: trend_against_def fadd_def fsub_def rounding_defs)

text \<open>
  C3, amended. With the sums and differences \<open>p + 15\<close>, \<open>p + 5\<close>, \<open>p - 15\<close>, \<open>p - 5\<close> rounded
  to double precision as the float operations of the source round them, the trend of \<open>c\<close>
  against the previous reading \<open>p\<close> is StrongUp exactly when \<open>c\<close> is above the rounded
  \<open>p + 15\<close>, Up exactly when it is above the rounded \<open>p + 5\<close> and not above the rounded
  \<open>p + 15\<close>, StrongDown exactly when it is below the rounded \<open>p - 15\<close>, Down exactly when
  it is below the rounded \<open>p - 5\<close> and not below the rounded \<open>p - 15\<close>, and Stable exactly
  between the rounded \<open>p - 5\<close> and \<open>p + 5\<close>. For a double \<open>c\<close>: StrongUp only if
  \<open>c - p > 15\<close>, Up only if \<open>c - p > 5\<close>, StrongDown only if \<open>c - p < -15\<close>, Down only if
  \<open>c - p < -5\<close>, and Stable whenever \<open>-5 \<le> c - p \<le> 5\<close>; a difference of exactly 15 is Up
  (for \<open>|p| \<le> 2^53\<close>), equal values are Stable. The reading compared with is the last one
  of the list, and without a reading the trend is Stable.
\<close>

theorem trend_classification:
  "(trend_against c p = StrongUp \<longleftrightarrow> fadd p 15 < c)
   \<and> (trend_against c p = Up \<longleftrightarrow> fadd p 5 < c \<and> c \<le> fadd p 15)
   \<and> (trend_against c p = StrongDown \<longleftrightarrow> c < fsub p 15)
   \<and> (trend_against c p = Down \<longleftrightarrow> fsub p 15 \<le> c \<and> c < fsub p 5)
   \<and> (trend_against c p = Stable \<longleftrightarrow> fsub p 5 \<le> c \<and> c \<le> fadd p 5)
   \<and> (is_double c \<longrightarrow>
         (trend_against c p = StrongUp \<longrightarrow> c - p > 15)
       \<and> (trend_against c p = Up \<longrightarrow> c - p > 5)
       \<and> (trend_against c p = StrongDown \<longrightarrow> c - p < - 15)
       \<and> (trend_against c p = Down \<longrightarrow> c - p < - 5)
       \<and> (- 5 \<le> c - p \<and> c - p \<le> 5 \<longrightarrow> trend_against c p = Stable)
       \<and> (c - p = 15 \<and> \<bar>p\<bar> \<le> 2 ^ 53 \<longrightarrow> trend_against c p = Up)
       \<and> trend_against c c = Stable)
   \<and> determine_trend c (readings @ [p]) = trend_against c p
   \<and> determine_trend c [] = Stable"
proof -
  note ord = rounded_offsets_ordered [of p]
  have iffs: "(trend_against c p = StrongUp \<longleftrightarrow> fadd p 15 < c)
   \<and> (trend_against c p = Up \<longleftrightarrow> fadd p 5 < c \<and> c \<le> fadd p 15)
   \<and> (trend_against c p = StrongDown \<longleftrightarrow> c < fsub p 15)
   \<and> (trend_against c p = Down \<longleftrightarrow> fsub p 15 \<le> c \<and> c < fsub p 5)
   \<and> (trend_against c p = Stable \<longleftrightarrow> fsub p 5 \<le> c \<and> c \<le> fadd p 5)"
    using ord by (auto simp add: trend_against_def)
  have dbl: "(trend_against c p = StrongUp \<longrightarrow> c - p > 15)
       \<and> (trend_against c p = Up \<longrightarrow> c - p > 5)
       \<and> (trend_against c p = StrongDown \<longrightarrow> c - p < - 15)
       \<and> (trend_against c p = Down \<longrightarrow> c - p < - 5)
       \<and> (- 5 \<le> c - p \<and> c - p \<le> 5 \<longrightarrow> trend_against c p = Stable)
       \<and> (c - p = 15 \<and> \<bar>p\<bar> \<le> 2 ^ 53 \<longrightarrow> trend_against c p = Up)
       \<and> trend_against c c = Stable" if d: "is_double c"
  proof -
    have k1: "c \<le> p + 15 \<Longrightarrow> c \<le> fadd p 15" and k2: "c \<le> p + 5 \<Longrightarrow> c \<le> fadd p 5"
      and k3: "p - 15 \<le> c \<Longrightarrow> fsub p 15 \<le> c" and k4: "p - 5 \<le> c \<Longrightarrow> fsub p 5 \<le> c"
      unfolding fadd_def fsub_def
      using double_below_rounded [OF d] double_above_rounded [OF d] by blast+
    have 1: "trend_against c p = StrongUp \<longrightarrow> c - p > 15"
      using iffs k1 by fastforce
    have 2: "trend_against c p = Up \<longrightarrow> c - p > 5"
      using iffs k2 by fastforce
    have 3: "trend_against c p = StrongDown \<longrightarrow> c - p < - 15"
      using iffs k3 by fastforce
    have 4: "trend_against c p = Down \<longrightarrow> c - p < - 5"
      using iffs k4 by fastforce
    have 5: "- 5 \<le> c - p \<and> c - p \<le> 5 \<longrightarrow> trend_against c p = Stable"
      using iffs k2 k4 by fastforce
    have 6: "c - p = 15 \<and> \<bar>p\<bar> \<le> 2 ^ 53 \<longrightarrow> trend_against c p = Up"
    proof
      assume a: "c - p = 15 \<and> \<bar>p\<bar> \<le> 2 ^ 53"
      then have "fadd p 5 < c" using rounded_sum_close [of p] by linarith
      moreover have "c \<le> fadd p 15" using a k1 by simp
      ultimately show "trend_against c p = Up" using iffs by blast
    qed
    have 7: "trend_against c c = Stable"
      using double_below_rounded [OF d, of "c + 5"] double_below_rounded [OF d, of "c + 15"]
        double_above_rounded [OF d, of "c - 5"] double_above_rounded [OF d, of "c - 15"]
      by (simp add: trend_against_def fadd_def fsub_def)
    from 1 2 3 4 5 6 7 show ?thesis by blast
  qed
  have dt: "determine_trend c (readings @ [p]) = trend_against c p"
    "determine_trend c [] = Stable"
    by (simp_all add: determine_trend_def)
  from iffs dbl dt show ?thesis by blast
qed

theorem trend_classification_witness:
  "is_double 115 \<and> (115::real) - 100 = 15 \<and> \<bar>100::real\<bar> \<le> 2 ^ 53
   \<and> trend_against 115 100 = Up
   \<and> is_double 120 \<and> trend_against 120 100 = StrongUp \<and> (120::real) - 100 > 15
   \<and> is_double 80 \<and> trend_against 80 100 = StrongDown \<and> (80::real) - 100 < - 15
   \<and> is_double 90 \<and> trend_against 90 100 = Down \<and> (90::real) - 100 < - 5
   \<and> is_double 103 \<and> - 5 \<le> (103::real) - 100 \<and> (103::real) - 100 \<le> 5
   \<and> trend_against 103 100 = Stable"
proof -
  have d: "is_double 115" "is_double 120" "is_double 80" "is_double 90" "is_double 103"
    by (simp_all add: is_double_def rounding_defs)
  have "trend_against 115 100 = Up"
    using trend_classification [of 115 100] d(1) by simp
  moreover have "trend_against 103 100 = Stable"
    using trend_classification [of 103 100] d(5) by simp
  moreover have "trend_against 120 100 = StrongUp" "trend_against 80 100 = StrongDown"
    "trend_against 90 100 = Down"
    by (simp_all add: trend_against_def fadd_def fsub_def rounding_defs)
  ultimately show ?thesis using d by simp
qed

section \<open>Recording a measurement\<close>






text \<open>The alerting operations touch neither the readings in memory nor the table.\<close>

lemma memory_ends_table_alerting:
  "memory_ends_table (fst (check_glucose_alerts self v now)) = memory_ends_table self"
  "memory_ends_table (fst (log_symptoms self symptom_type sev now)) = memory_ends_table self"
  by (simp_all add: memory_ends_table_def data_check_glucose_alerts log_symptoms_def
      data_send_alert Let_def)






section \<open>Forecast\<close>

text \<open>
  The fitted line satisfies the two normal equations, hence no line has a smaller sum of
  squared residuals on the window.
\<close>

lemma sum_list_upt: "sum_list (map f [0..<n]) = sum f {0..<n}"
  by (simp add: interv_sum_list_conv_sum_set_nat)

lemma linreg_normal_equations:
  fixes y :: "real list"
  assumes "linreg_fit y = (a, b)"
  shows "(\<Sum>i = 0..<length y. y ! i - (a * real i + b)) = 0"
    and "(\<Sum>i = 0..<length y. real i * (y ! i - (a * real i + b))) = 0"
proof -
  define n where "n = length y"
  define xm where "xm = (\<Sum>i = 0..<n. real i) / real n"
  define ym where "ym = (\<Sum>i = 0..<n. y ! i) / real n"
  define sxx where "sxx = (\<Sum>i = 0..<n. (real i - xm) * (real i - xm))"
  define sxy where "sxy = (\<Sum>i = 0..<n. (real i - xm) * (y ! i - ym))"
  have sy: "sum_list y = (\<Sum>i = 0..<n. y ! i)"
    by (simp add: sum_list_sum_nth n_def)
  have a: "a = (if sxx = 0 then 0 else sxy / sxx)" and b: "b = ym - a * xm"
    using assms unfolding xm_def ym_def sxx_def sxy_def
    by (auto simp add: linreg_fit_def Let_def sum_list_upt sy n_def [symmetric])
  have cx: "(\<Sum>i = 0..<n. real i - xm) = 0"
    by (cases "n = 0") (simp_all add: sum_subtractf xm_def)
  have cy: "(\<Sum>i = 0..<n. y ! i - ym) = 0"
    by (cases "n = 0") (simp_all add: sum_subtractf ym_def)
  have res: "y ! i - (a * real i + b) = (y ! i - ym) - a * (real i - xm)" for i
    by (simp add: b algebra_simps)
  have "(\<Sum>i = 0..<n. (y ! i - ym) - a * (real i - xm))
        = (\<Sum>i = 0..<n. y ! i - ym) - (\<Sum>i = 0..<n. a * (real i - xm))"
    by (rule sum_subtractf)
  also have "\<dots> = (\<Sum>i = 0..<n. y ! i - ym) - a * (\<Sum>i = 0..<n. real i - xm)"
    by (subst sum_distrib_left) (rule refl)
  finally have r0: "(\<Sum>i = 0..<n. y ! i - (a * real i + b)) = 0"
    unfolding res by (simp only: cx cy)
  have "sxy - a * sxx = 0"
  proof (cases "sxx = 0")
    case False
    then show ?thesis by (simp add: a)
  next
    case True
    have "\<forall>i\<in>{0..<n}. (real i - xm) * (real i - xm) = 0"
      using True unfolding sxx_def
      by (subst (asm) sum_nonneg_eq_0_iff) simp_all
    then have "sxy = 0"
      unfolding sxy_def by (intro sum.neutral) auto
    with True show ?thesis by simp
  qed
  moreover have "(\<Sum>i = 0..<n. (real i - xm) * ((y ! i - ym) - a * (real i - xm)))
        = sxy - a * sxx"
  proof -
    have "(real i - xm) * ((y ! i - ym) - a * (real i - xm))
        = (real i - xm) * (y ! i - ym) - a * ((real i - xm) * (real i - xm))" for i
      by (simp add: algebra_simps)
    then have "(\<Sum>i = 0..<n. (real i - xm) * ((y ! i - ym) - a * (real i - xm)))
        = (\<Sum>i = 0..<n. (real i - xm) * (y ! i - ym)
              - a * ((real i - xm) * (real i - xm)))"
      by simp
    also have "\<dots> = sxy - (\<Sum>i = 0..<n. a * ((real i - xm) * (real i - xm)))"
      unfolding sxy_def by (rule sum_subtractf)
    also have "\<dots> = sxy - a * sxx"
      unfolding sxx_def by (subst sum_distrib_left) (rule refl)
    finally show ?thesis .
  qed
  ultimately have c0: "(\<Sum>i = 0..<n. (real i - xm) * (y ! i - (a * real i + b))) = 0"
    unfolding res by simp
  have "(\<Sum>i = 0..<n. real i * (y ! i - (a * real i + b)))
        = (\<Sum>i = 0..<n. (real i - xm) * (y ! i - (a * real i + b)))
          + xm * (\<Sum>i = 0..<n. y ! i - (a * real i + b))"
    by (simp add: sum_distrib_left sum.distrib [symmetric] algebra_simps)
  then have x0: "(\<Sum>i = 0..<n. real i * (y ! i - (a * real i + b))) = 0"
    by (simp add: c0 r0)
  from r0 x0 show "(\<Sum>i = 0..<length y. y ! i - (a * real i + b)) = 0"
    and "(\<Sum>i = 0..<length y. real i * (y ! i - (a * real i + b))) = 0"
    by (simp_all add: n_def)
qed

lemma linreg_least_squares:
  assumes "linreg_fit y = (a, b)"
  shows "squared_error y a b \<le> squared_error y a' b'"
proof -
  let ?r = "\<lambda>i. y ! i - (a * real i + b)"
  let ?d = "\<lambda>i. (a - a') * real i + (b - b')"
  have split: "(y ! i - (a' * real i + b')) * (y ! i - (a' * real i + b'))
      = ?r i * ?r i + 2 * ((a - a') * (real i * ?r i) + (b - b') * ?r i) + ?d i * ?d i" for i
    by (simp add: algebra_simps)
  have "squared_error y a' b'
      = (\<Sum>i = 0..<length y. ?r i * ?r i)
        + 2 * ((a - a') * (\<Sum>i = 0..<length y. real i * ?r i)
               + (b - b') * (\<Sum>i = 0..<length y. ?r i))
        + (\<Sum>i = 0..<length y. ?d i * ?d i)"
    unfolding squared_error_def sum_list_upt split
    by (simp add: sum.distrib sum_distrib_left)
  also have "\<dots> = squared_error y a b + (\<Sum>i = 0..<length y. ?d i * ?d i)"
    by (simp add: linreg_normal_equations [OF assms] squared_error_def sum_list_upt)
  finally show ?thesis
    by (simp add: sum_nonneg)
qed

lemma scan_predictions_expected:
  "scan_predictions th i preds found = found @ expected_breaches th i preds"
  by (induction preds arbitrary: i found)
     (simp_all add: expected_breaches_def breach_at_def)

lemma expected_breaches_Cons:
  "expected_breaches th i (p # ps) = breach_at th i p @ expected_breaches th (Suc i) ps"
  by (simp add: expected_breaches_def)

lemma expected_breaches_Nil: "expected_breaches th i [] = []"
  by (simp add: expected_breaches_def)

lemma length_expected_breaches: "length (expected_breaches th i preds) \<le> length preds"
  by (induction preds arbitrary: i)
     (simp_all add: expected_breaches_Nil expected_breaches_Cons breach_at_def le_SucI)

lemma expected_breaches_member:
  "f \<in> set (expected_breaches th i preds) \<Longrightarrow>
     i < hours_ahead f \<and> hours_ahead f \<le> i + length preds
     \<and> predicted_value f = preds ! (hours_ahead f - 1 - i)
     \<and> (if is_hypo_forecast f then predicted_value f < hypoglycemia th
         else \<not> predicted_value f < hypoglycemia th
              \<and> predicted_value f > severe_hyperglycemia th)"
proof (induction preds arbitrary: i)
  case Nil
  then show ?case by (simp add: expected_breaches_Nil)
next
  case (Cons p ps)
  from Cons.prems consider "f \<in> set (breach_at th i p)"
    | "f \<in> set (expected_breaches th (Suc i) ps)"
    by (auto simp add: expected_breaches_Cons)
  then show ?case
  proof cases
    case 1
    then show ?thesis by (auto simp add: breach_at_def split: if_splits)
  next
    case 2
    from Cons.IH [OF 2] have ih: "Suc i < hours_ahead f"
      "hours_ahead f \<le> Suc i + length ps"
      "predicted_value f = ps ! (hours_ahead f - 1 - Suc i)"
      "if is_hypo_forecast f then predicted_value f < hypoglycemia th
       else \<not> predicted_value f < hypoglycemia th
            \<and> predicted_value f > severe_hyperglycemia th"
      by blast+
    from ih(1) have "hours_ahead f - 1 - i = Suc (hours_ahead f - 1 - Suc i)"
      by arith
    then have "(p # ps) ! (hours_ahead f - 1 - i) = ps ! (hours_ahead f - 1 - Suc i)"
      by simp
    with ih(1,2,3) have "i < hours_ahead f \<and> hours_ahead f \<le> i + length (p # ps)
        \<and> predicted_value f = (p # ps) ! (hours_ahead f - 1 - i)"
      by simp
    with ih(4) show ?thesis by blast
  qed
qed

lemma sorted_expected_breaches:
  "sorted_wrt (<) (map hours_ahead (expected_breaches th i preds))"
proof (induction preds arbitrary: i)
  case Nil
  then show ?case by (simp add: expected_breaches_Nil)
next
  case (Cons p ps)
  have "\<forall>f\<in>set (expected_breaches th (Suc i) ps). Suc i < hours_ahead f"
    using expected_breaches_member by blast
  with Cons.IH [of "Suc i"] show ?case
    by (auto simp add: expected_breaches_Cons breach_at_def sorted_wrt_append)
qed

lemma last_window:
  assumes "1 \<le> ws" and "ws \<le> int (length xs)"
  shows "py_slice_from (- ws) xs = drop (length xs - nat ws) xs"
    and "length (drop (length xs - nat ws) xs) = nat ws"
    and "drop (length xs - nat ws) xs \<noteq> []"
  using assms by (auto simp add: py_slice_from_def)

text \<open>
  C6, as the claim states it, fails when more readings than \<open>window_size\<close> are at hand:
  the fit is not over all \<open>n\<close> of them. With \<open>window_size = 2\<close> and the readings
  300, 100, 110 the forecaster fits the line through the last two readings only and
  predicts 120 for the next hour, where the line fitted to all three readings at the
  indices 0, 1, 2 gives -20 at index 3.
\<close>

theorem window_truncation_counterexample:
  "forecast_predictions
     ((init_monitor ''DIA456'' ''Marie Dupont'' 1
         (default_config\<lparr> prediction_settings := \<lparr> window_size = 2, forecast_hours = 4 \<rparr> \<rparr>))
        \<lparr> blood_glucose := [300, 100, 110] \<rparr>) 1 = Inr [120]
   \<and> forecast_over_all_readings [300, 100, 110] 1 = [- 20]
   \<and> forecast_predictions
     ((init_monitor ''DIA456'' ''Marie Dupont'' 1
         (default_config\<lparr> prediction_settings := \<lparr> window_size = 2, forecast_hours = 4 \<rparr> \<rparr>))
        \<lparr> blood_glucose := [300, 100, 110] \<rparr>) 1
     \<noteq> Inr (forecast_over_all_readings [300, 100, 110] 1)"
  by (simp add: forecast_predictions_def forecast_over_all_readings_def py_slice_from_def
      linreg_fit_def init_monitor_def default_config_def Let_def)

text \<open>
  C6, amended. For every history of at least \<open>window_size\<close> readings, \<open>window_size \<ge> 1\<close>,
  and every horizon \<open>hours \<ge> 1\<close>: the window is the last \<open>window_size\<close> readings, so that
  \<open>n = window_size\<close>; the line \<open>a * x + b\<close> fitted over the indices \<open>0..n-1\<close> has the least
  sum of squared residuals among all lines; the predictions are \<open>a * i + b\<close> for \<open>i\<close> from
  \<open>n\<close> to \<open>n + hours - 1\<close>; the result is the list of the breaches of these predictions,
  step by step (below the hypoglycemia threshold, else above the severe hyperglycemia
  threshold), or the text for no anomaly when there is none. The breaches come with
  strictly increasing numbers of hours ahead, between 1 and \<open>hours\<close>, hence at most one per
  step, each with the prediction of its step.
\<close>

theorem forecast_on_last_window:
  fixes self :: monitor and hours :: int
  defines "th \<equiv> alert_thresholds (config self)"
  defines "ws \<equiv> window_size (prediction_settings (config self))"
  defines "window \<equiv> drop (length (blood_glucose self) - nat ws) (blood_glucose self)"
  defines "a \<equiv> fst (linreg_fit window)" and "b \<equiv> snd (linreg_fit window)"
  defines "preds \<equiv> map (\<lambda>i. a * real i + b) [nat ws ..< nat ws + nat hours]"
  defines "found \<equiv> expected_breaches th 0 preds"
  assumes ws1: "1 \<le> ws" and len: "ws \<le> int (length (blood_glucose self))"
    and h1: "1 \<le> hours"
  shows "length window = nat ws
     \<and> (\<forall>a' b'. squared_error window a b \<le> squared_error window a' b')
     \<and> forecast_predictions self hours = Inr preds
     \<and> predict_glucose_trend self hours
         = Inr (if found = [] then NoAnomaly else BreachAlerts found)
     \<and> length found \<le> nat hours
     \<and> sorted_wrt (<) (map hours_ahead found)
     \<and> (\<forall>f \<in> set found.
           1 \<le> hours_ahead f \<and> hours_ahead f \<le> nat hours
           \<and> predicted_value f = preds ! (hours_ahead f - 1)
           \<and> (if is_hypo_forecast f then predicted_value f < hypoglycemia th
               else \<not> predicted_value f < hypoglycemia th
                    \<and> predicted_value f > severe_hyperglycemia th))"
proof -
  have slice: "py_slice_from (- ws) (blood_glucose self) = window"
    and lw: "length window = nat ws" and ne: "window \<noteq> []"
    unfolding window_def using last_window [OF ws1 len] by simp_all
  have fit: "linreg_fit window = (a, b)"
    by (simp add: a_def b_def)
  have best: "\<forall>a' b'. squared_error window a b \<le> squared_error window a' b'"
    using linreg_least_squares [OF fit] by blast
  have fp: "forecast_predictions self hours = Inr preds"
    using ne h1
    by (simp add: forecast_predictions_def Let_def ws_def [symmetric] slice fit lw preds_def)
  have lp: "length preds = nat hours"
    by (simp add: preds_def)
  have pg: "predict_glucose_trend self hours
              = Inr (if found = [] then NoAnomaly else BreachAlerts found)"
    using len
    by (simp add: predict_glucose_trend_def ws_def [symmetric] fp scan_predictions_expected
        th_def [symmetric] found_def [symmetric] Let_def)
  have lf: "length found \<le> nat hours"
    unfolding found_def using length_expected_breaches [of th 0 preds] by (simp add: lp)
  have so: "sorted_wrt (<) (map hours_ahead found)"
    unfolding found_def by (rule sorted_expected_breaches)
  have mem: "\<forall>f \<in> set found.
           1 \<le> hours_ahead f \<and> hours_ahead f \<le> nat hours
           \<and> predicted_value f = preds ! (hours_ahead f - 1)
           \<and> (if is_hypo_forecast f then predicted_value f < hypoglycemia th
               else \<not> predicted_value f < hypoglycemia th
                    \<and> predicted_value f > severe_hyperglycemia th)"
  proof
    fix f assume "f \<in> set found"
    then have "f \<in> set (expected_breaches th 0 preds)"
      by (simp add: found_def)
    from expected_breaches_member [OF this] show
      "1 \<le> hours_ahead f \<and> hours_ahead f \<le> nat hours
           \<and> predicted_value f = preds ! (hours_ahead f - 1)
           \<and> (if is_hypo_forecast f then predicted_value f < hypoglycemia th
               else \<not> predicted_value f < hypoglycemia th
                    \<and> predicted_value f > severe_hyperglycemia th)"
      by (auto simp add: lp Suc_le_eq split: if_splits)
  qed
  from lw best fp pg lf so mem show ?thesis by blast
qed

theorem forecast_on_last_window_witness:
  "1 \<le> window_size (prediction_settings (config
       ((init_monitor ''DIA456'' ''Marie Dupont'' 1
          (default_config\<lparr> prediction_settings := \<lparr> window_size = 3, forecast_hours = 4 \<rparr> \<rparr>))
        \<lparr> blood_glucose := [100, 230, 240, 250] \<rparr>)))
   \<and> window_size (prediction_settings (config
       ((init_monitor ''DIA456'' ''Marie Dupont'' 1
          (default_config\<lparr> prediction_settings := \<lparr> window_size = 3, forecast_hours = 4 \<rparr> \<rparr>))
        \<lparr> blood_glucose := [100, 230, 240, 250] \<rparr>)))
      \<le> int (length (blood_glucose
       ((init_monitor ''DIA456'' ''Marie Dupont'' 1
          (default_config\<lparr> prediction_settings := \<lparr> window_size = 3, forecast_hours = 4 \<rparr> \<rparr>))
        \<lparr> blood_glucose := [100, 230, 240, 250] \<rparr>)))
   \<and> (1::int) \<le> 4
   \<and> forecast_predictions
       ((init_monitor ''DIA456'' ''Marie Dupont'' 1
          (default_config\<lparr> prediction_settings := \<lparr> window_size = 3, forecast_hours = 4 \<rparr> \<rparr>))
        \<lparr> blood_glucose := [100, 230, 240, 250] \<rparr>) 4 = Inr [260, 270, 280, 290]
   \<and> predict_glucose_trend
       ((init_monitor ''DIA456'' ''Marie Dupont'' 1
          (default_config\<lparr> prediction_settings := \<lparr> window_size = 3, forecast_hours = 4 \<rparr> \<rparr>))
        \<lparr> blood_glucose := [100, 230, 240, 250] \<rparr>) 4
     = Inr (BreachAlerts [SevereHyperForecast 1 260, SevereHyperForecast 2 270,
                          SevereHyperForecast 3 280, SevereHyperForecast 4 290])"
proof -
  let ?m = "(init_monitor ''DIA456'' ''Marie Dupont'' 1
          (default_config\<lparr> prediction_settings := \<lparr> window_size = 3, forecast_hours = 4 \<rparr> \<rparr>))
        \<lparr> blood_glucose := [100, 230, 240, 250] \<rparr>"
  have h1: "1 \<le> window_size (prediction_settings (config ?m))"
    by (simp add: init_monitor_def default_config_def)
  have h2: "window_size (prediction_settings (config ?m)) \<le> int (length (blood_glucose ?m))"
    by (simp add: init_monitor_def default_config_def)
  have h3: "(1::int) \<le> 4" by simp
  have ws: "window_size (prediction_settings (config ?m)) = 3"
    by (simp add: init_monitor_def default_config_def)
  have bg: "blood_glucose ?m = [100, 230, 240, 250]"
    by simp
  have fit: "linreg_fit [230, 240, 250] = (10, 230)"
    by (simp add: linreg_fit_def Let_def)
  have up: "[3..<7] = [3, 4, 5, 6::nat]"
    by (simp add: upt_rec)
  note main = forecast_on_last_window [OF h1 h2 h3]
  from main have "forecast_predictions ?m 4 = Inr [260, 270, 280, 290]"
    unfolding ws bg by (simp add: fit up)
  moreover from main have "predict_glucose_trend ?m 4
     = Inr (BreachAlerts [SevereHyperForecast 1 260, SevereHyperForecast 2 270,
                          SevereHyperForecast 3 280, SevereHyperForecast 4 290])"
    unfolding ws bg
    by (simp add: fit up expected_breaches_def breach_at_def init_monitor_def
        default_config_def)
  ultimately show ?thesis using h1 h2 h3 by blast
qed

text \<open>
  C7. With fewer readings than \<open>window_size\<close>, \<open>predict_glucose_trend\<close> returns the text for
  insufficient data, as a value and not as an exception, whatever the horizon; nothing is
  fitted or predicted.
\<close>

theorem insufficient_data:
  "int (length (blood_glucose self)) < window_size (prediction_settings (config self))
   \<Longrightarrow> predict_glucose_trend self hours = Inr InsufficientData"
  by (simp add: predict_glucose_trend_def)

theorem insufficient_data_witness:
  "int (length (blood_glucose ((init_monitor ''DIA456'' ''Marie Dupont'' 1 default_config)
      \<lparr> blood_glucose := [100, 110, 120] \<rparr>)))
     < window_size (prediction_settings (config
        ((init_monitor ''DIA456'' ''Marie Dupont'' 1 default_config)
           \<lparr> blood_glucose := [100, 110, 120] \<rparr>)))
   \<and> predict_glucose_trend ((init_monitor ''DIA456'' ''Marie Dupont'' 1 default_config)
        \<lparr> blood_glucose := [100, 110, 120] \<rparr>) 4 = Inr InsufficientData"
proof -
  let ?m = "(init_monitor ''DIA456'' ''Marie Dupont'' 1 default_config)
              \<lparr> blood_glucose := [100, 110, 120] \<rparr>"
  have h: "int (length (blood_glucose ?m)) < window_size (prediction_settings (config ?m))"
    by (simp add: init_monitor_def default_config_def)
  from h insufficient_data [OF h, of 4] show ?thesis by simp
qed

lemma predict_glucose_trend_total:
  assumes "1 \<le> window_size (prediction_settings (config self))" and "1 \<le> hours"
  shows "\<exists>p. predict_glucose_trend self hours = Inr p"
proof (cases "int (length (blood_glucose self)) < window_size (prediction_settings (config self))")
  case True
  then show ?thesis by (simp add: predict_glucose_trend_def)
next
  case False
  then have "window_size (prediction_settings (config self)) \<le> int (length (blood_glucose self))"
    by simp
  from last_window [OF assms(1) this] assms(2)
  have "\<exists>ps. forecast_predictions self hours = Inr ps"
    by (simp add: forecast_predictions_def Let_def split: prod.splits)
  then show ?thesis
    using False by (auto simp add: predict_glucose_trend_def Let_def)
qed

section \<open>Report\<close>

text \<open>
  C8. On an empty result of the query, \<open>generate_diabetes_report\<close> returns the text for no
  data, for every monitor and period: no report record, hence no statistics, no episode
  counts and no forecast.
\<close>

theorem empty_report_no_data:
  "generate_diabetes_report self [] hours = Inr NoData
   \<and> episode_counts (generate_diabetes_report self [] hours) = None
   \<and> embedded_forecast (generate_diabetes_report self [] hours) = None"
  by (simp add: generate_diabetes_report_def episode_counts_def embedded_forecast_def)

text \<open>
  C9, as the claim states it, fails: the counts are independent filters, and nothing
  orders the two thresholds. With a configuration whose \<open>hyperglycemia\<close> threshold is 250
  and whose \<open>severe_hyperglycemia\<close> threshold is 180, the single reading 200 gives no
  hyperglycemia episode and one severe hyperglycemia episode.
\<close>

theorem episode_counts_counterexample:
  "episode_counts (generate_diabetes_report
      (init_monitor ''DIA456'' ''Marie Dupont'' 1
         (default_config\<lparr> alert_thresholds :=
            \<lparr> hypoglycemia = 70, hyperglycemia = 250, severe_hyperglycemia = 180,
              ketoacidosis_risk = 15 / 10, hypo_symptoms_severity = 7 \<rparr> \<rparr>))
      [\<lparr> g_timestamp = 0, g_blood_glucose = 200, g_measurement_context = ''random'',
         g_glucose_trend = Stable \<rparr>] 24) = Some (0, 0, 1)"
  by (simp add: episode_counts_def generate_diabetes_report_def predict_glucose_trend_def
      init_monitor_def default_config_def Let_def)

text \<open>
  C9, amended. For every non-empty measurement sequence (and \<open>window_size \<ge> 1\<close>, so that
  the embedded forecast cannot raise) the report is produced, its hypoglycemia count is
  the number of readings strictly below the hypoglycemia threshold, its hyperglycemia
  count the number of readings strictly above the hyperglycemia threshold, its severe
  count the number of readings strictly above the severe threshold; the severe count is at
  most the hyperglycemia count whenever the hyperglycemia threshold is at most the severe
  one.
\<close>

theorem episode_counts_of_report:
  assumes "df_glucose \<noteq> []"
    and "1 \<le> window_size (prediction_settings (config self))"
  shows "\<exists>h y s.
     episode_counts (generate_diabetes_report self df_glucose hours) = Some (h, y, s)
     \<and> h = length (filter (\<lambda>r. g_blood_glucose r < hypoglycemia (alert_thresholds (config self)))
                     df_glucose)
     \<and> y = length (filter (\<lambda>r. g_blood_glucose r > hyperglycemia (alert_thresholds (config self)))
                     df_glucose)
     \<and> s = length (filter (\<lambda>r. g_blood_glucose r
                                  > severe_hyperglycemia (alert_thresholds (config self)))
                     df_glucose)
     \<and> (hyperglycemia (alert_thresholds (config self))
          \<le> severe_hyperglycemia (alert_thresholds (config self)) \<longrightarrow> s \<le> y)"
proof -
  from predict_glucose_trend_total [OF assms(2), of 4]
  obtain p where p: "predict_glucose_trend self 4 = Inr p" by auto
  have mono: "hyperglycemia (alert_thresholds (config self))
          \<le> severe_hyperglycemia (alert_thresholds (config self)) \<Longrightarrow>
     length (filter (\<lambda>r. g_blood_glucose r
                                  > severe_hyperglycemia (alert_thresholds (config self)))
                     df_glucose)
     \<le> length (filter (\<lambda>r. g_blood_glucose r > hyperglycemia (alert_thresholds (config self)))
                     df_glucose)"
    by (induction df_glucose) auto
  show ?thesis
    using assms(1) mono
    by (simp add: episode_counts_def generate_diabetes_report_def p Let_def length_filter_map
        comp_def)
qed

theorem episode_counts_of_report_witness:
  "[\<lparr> g_timestamp = 0, g_blood_glucose = 60, g_measurement_context = ''random'',
        g_glucose_trend = Stable \<rparr>,
     \<lparr> g_timestamp = 1, g_blood_glucose = 200, g_measurement_context = ''random'',
        g_glucose_trend = StrongUp \<rparr>,
     \<lparr> g_timestamp = 2, g_blood_glucose = 260, g_measurement_context = ''random'',
        g_glucose_trend = StrongUp \<rparr>] \<noteq> []
   \<and> 1 \<le> window_size (prediction_settings (config
        (init_monitor ''DIA456'' ''Marie Dupont'' 1 default_config)))
   \<and> hyperglycemia (alert_thresholds (config
        (init_monitor ''DIA456'' ''Marie Dupont'' 1 default_config)))
      \<le> severe_hyperglycemia (alert_thresholds (config
        (init_monitor ''DIA456'' ''Marie Dupont'' 1 default_config)))
   \<and> episode_counts (generate_diabetes_report
        (init_monitor ''DIA456'' ''Marie Dupont'' 1 default_config)
        [\<lparr> g_timestamp = 0, g_blood_glucose = 60, g_measurement_context = ''random'',
            g_glucose_trend = Stable \<rparr>,
         \<lparr> g_timestamp = 1, g_blood_glucose = 200, g_measurement_context = ''random'',
            g_glucose_trend = StrongUp \<rparr>,
         \<lparr> g_timestamp = 2, g_blood_glucose = 260, g_measurement_context = ''random'',
            g_glucose_trend = StrongUp \<rparr>] 24) = Some (1, 2, 1)"
proof -
  let ?m = "init_monitor ''DIA456'' ''Marie Dupont'' 1 default_config"
  let ?df = "[\<lparr> g_timestamp = 0, g_blood_glucose = 60, g_measurement_context = ''random'',
            g_glucose_trend = Stable \<rparr>,
         \<lparr> g_timestamp = 1, g_blood_glucose = 200, g_measurement_context = ''random'',
            g_glucose_trend = StrongUp \<rparr>,
         \<lparr> g_timestamp = 2, g_blood_glucose = 260, g_measurement_context = ''random'',
            g_glucose_trend = StrongUp \<rparr>]"
  have h1: "?df \<noteq> []" by simp
  have h2: "1 \<le> window_size (prediction_settings (config ?m))"
    by (simp add: init_monitor_def default_config_def)
  have h3: "hyperglycemia (alert_thresholds (config ?m))
      \<le> severe_hyperglycemia (alert_thresholds (config ?m))"
    by (simp add: init_monitor_def default_config_def)
  have th: "alert_thresholds (config ?m) = alert_thresholds default_config"
    by (simp add: init_monitor_def)
  from episode_counts_of_report [OF h1 h2, of 24]
  have "episode_counts (generate_diabetes_report ?m ?df 24) = Some (1, 2, 1)"
    unfolding th by (auto simp add: default_config_def)
  with h1 h2 h3 show ?thesis by blast
qed

text \<open>
  C10. Changing \<open>forecast_hours\<close> in the configuration changes neither the result of
  \<open>predict_glucose_trend\<close>, for any horizon argument, nor the report; the forecast embedded
  in a report is the one for the horizon 4, the default of the argument.
\<close>

theorem forecast_hours_not_used:
  "predict_glucose_trend
     (self\<lparr> config := (config self)\<lparr> prediction_settings :=
        (prediction_settings (config self))\<lparr> forecast_hours := k \<rparr> \<rparr> \<rparr>) hours
     = predict_glucose_trend self hours
   \<and> generate_diabetes_report
     (self\<lparr> config := (config self)\<lparr> prediction_settings :=
        (prediction_settings (config self))\<lparr> forecast_hours := k \<rparr> \<rparr> \<rparr>) df_glucose report_hours
     = generate_diabetes_report self df_glucose report_hours
   \<and> embedded_forecast (generate_diabetes_report self df_glucose report_hours)
     = (if df_glucose = [] then None else Some (predict_glucose_trend self 4))"
proof -
  let ?self' = "self\<lparr> config := (config self)\<lparr> prediction_settings :=
        (prediction_settings (config self))\<lparr> forecast_hours := k \<rparr> \<rparr> \<rparr>"
  have fp: "forecast_predictions ?self' h = forecast_predictions self h" for h
    by (simp add: forecast_predictions_def)
  have p: "predict_glucose_trend ?self' h = predict_glucose_trend self h" for h
    by (simp add: predict_glucose_trend_def fp split: sum.splits)
  have "generate_diabetes_report ?self' df_glucose report_hours
          = generate_diabetes_report self df_glucose report_hours"
    unfolding generate_diabetes_report_def p by (simp add: Let_def split: sum.splits)
  moreover have "embedded_forecast (generate_diabetes_report self df_glucose report_hours)
     = (if df_glucose = [] then None else Some (predict_glucose_trend self 4))"
    by (simp add: embedded_forecast_def generate_diabetes_report_def Let_def split: sum.splits)
  ultimately show ?thesis using p by simp
qed

end
